theory Spec2Isabelle
  imports Main "HOL-Library.Word"
begin

section \<open>Python strings\<close>

text \<open>
  A Python \<^verbatim>\<open>str\<close> is a \<^typ>\<open>string\<close>. The backslash and the newline cannot be written
  inside a string literal, so they are named.
\<close>

definition bsl :: char where
  "bsl = CHR 0x5C"

definition nl :: char where
  "nl = CHR 0x0A"

text \<open>\<^verbatim>\<open>s.startswith(p)\<close>.\<close>

fun startswith :: "string \<Rightarrow> string \<Rightarrow> bool" where
  "startswith s [] = True"
| "startswith [] (p # ps) = False"
| "startswith (c # cs) (p # ps) = (c = p \<and> startswith cs ps)"

text \<open>\<^verbatim>\<open>needle in hay\<close> on strings.\<close>

fun str_contains :: "string \<Rightarrow> string \<Rightarrow> bool" where
  "str_contains needle [] = (needle = [])"
| "str_contains needle (c # cs) = (startswith (c # cs) needle \<or> str_contains needle cs)"

text \<open>
  \<^verbatim>\<open>s.replace(old, new)\<close>: the occurrences of \<^verbatim>\<open>old\<close> are found from the left and do
  not overlap; the text put in is not searched again. With an empty \<^verbatim>\<open>old\<close>, Python puts
  \<^verbatim>\<open>new\<close> before every character and at the end.
\<close>

function str_replace :: "string \<Rightarrow> string \<Rightarrow> string \<Rightarrow> string" where
  "str_replace old new [] = (if old = [] then new else [])"
| "str_replace old new (c # cs) =
     (if old = [] then new @ c # str_replace old new cs
      else if startswith (c # cs) old
        then new @ str_replace old new (drop (length old) (c # cs))
      else c # str_replace old new cs)"
  by pat_completeness auto
termination
  by (relation "measure (\<lambda>(old, new, s). length s)") auto

text \<open>\<^verbatim>\<open>sep.join(xs)\<close>.\<close>

fun str_join :: "string \<Rightarrow> string list \<Rightarrow> string" where
  "str_join sep [] = []"
| "str_join sep [x] = x"
| "str_join sep (x # y # ys) = x @ sep @ str_join sep (y # ys)"

section \<open>Python values\<close>

text \<open>
  The dictionaries of the pipeline state hold dynamically typed data: \<^verbatim>\<open>None\<close>, integers,
  strings, lists and dictionaries. A dictionary is an association list in insertion
  order with distinct keys. Strings are taken to be ASCII.
\<close>

datatype pyval =
    PNone
  | PInt int
  | PStr string
  | PList "pyval list"
  | PDict "(pyval \<times> pyval) list"

type_synonym pydict = "(pyval \<times> pyval) list"

datatype error =
    AttributeError
  | KeyError
  | TypeError
  | ValidationError
  | UnboundLocalError
  | ServiceError string

text \<open>Sequencing of steps that may raise: the first exception ends the computation.\<close>

definition ebind :: "error + 'a \<Rightarrow> ('a \<Rightarrow> error + 'b) \<Rightarrow> error + 'b" where
  "ebind m f = (case m of Inl e \<Rightarrow> Inl e | Inr x \<Rightarrow> f x)"

text \<open>A comprehension or a \<^verbatim>\<open>for\<close> loop whose body may raise, collecting the results.\<close>

fun emap :: "('a \<Rightarrow> error + 'b) \<Rightarrow> 'a list \<Rightarrow> error + 'b list" where
  "emap f [] = Inr []"
| "emap f (x # xs) = ebind (f x) (\<lambda>y. ebind (emap f xs) (\<lambda>ys. Inr (y # ys)))"

text \<open>Truth value of a Python object, as \<^verbatim>\<open>if x\<close>, \<^verbatim>\<open>not x\<close> and \<^verbatim>\<open>x or y\<close> read it.\<close>

fun truthy :: "pyval \<Rightarrow> bool" where
  "truthy PNone = False"
| "truthy (PInt i) = (i \<noteq> 0)"
| "truthy (PStr s) = (s \<noteq> [])"
| "truthy (PList xs) = (xs \<noteq> [])"
| "truthy (PDict kvs) = (kvs \<noteq> [])"

definition py_or :: "pyval \<Rightarrow> pyval \<Rightarrow> pyval" where
  "py_or a b = (if truthy a then a else b)"

text \<open>\<^verbatim>\<open>d.get(key, default)\<close>; only a dictionary has the method.\<close>

fun py_get :: "pyval \<Rightarrow> string \<Rightarrow> pyval \<Rightarrow> error + pyval" where
  "py_get (PDict kvs) key dflt =
     Inr (case map_of kvs (PStr key) of None \<Rightarrow> dflt | Some v \<Rightarrow> v)"
| "py_get _ key dflt = Inl AttributeError"

text \<open>
  \<^verbatim>\<open>item[key]\<close> on an object known to be a dictionary: a missing key raises KeyError.
\<close>

definition dict_index :: "pydict \<Rightarrow> string \<Rightarrow> error + pyval" where
  "dict_index kvs key = (case map_of kvs (PStr key) of None \<Rightarrow> Inl KeyError | Some v \<Rightarrow> Inr v)"

text \<open>Lists and dictionaries are unhashable and cannot be keys.\<close>

fun hashable :: "pyval \<Rightarrow> bool" where
  "hashable (PList xs) = False"
| "hashable (PDict kvs) = False"
| "hashable _ = True"

text \<open>
  \<^verbatim>\<open>d[k] = v\<close>: an existing key keeps its place and takes the new value, a new key goes
  to the end.
\<close>

fun dict_set :: "pydict \<Rightarrow> pyval \<Rightarrow> pyval \<Rightarrow> pydict" where
  "dict_set [] k v = [(k, v)]"
| "dict_set ((k', v') # kvs) k v =
     (if k' = k then (k', v) # kvs else (k', v') # dict_set kvs k v)"

text \<open>
  Iteration (\<^verbatim>\<open>for x in v\<close>): a list gives its elements, a string its characters, a
  dictionary its keys; \<^verbatim>\<open>None\<close> and integers are not iterable.
\<close>

fun py_iter :: "pyval \<Rightarrow> error + pyval list" where
  "py_iter (PList xs) = Inr xs"
| "py_iter (PStr s) = Inr (map (\<lambda>c. PStr [c]) s)"
| "py_iter (PDict kvs) = Inr (map fst kvs)"
| "py_iter _ = Inl TypeError"

subsection \<open>\<^verbatim>\<open>str\<close> and \<^verbatim>\<open>repr\<close>\<close>

function digits_of_nat :: "nat \<Rightarrow> string" where
  "digits_of_nat n =
     (if n < 10 then [''0123456789'' ! n]
      else digits_of_nat (n div 10) @ [''0123456789'' ! (n mod 10)])"
  by pat_completeness auto
termination
  by (relation "measure id") auto

declare digits_of_nat.simps [simp del]

definition str_of_int :: "int \<Rightarrow> string" where
  "str_of_int i = (if i < 0 then ''-'' @ digits_of_nat (nat (- i)) else digits_of_nat (nat i))"

definition squote :: char where
  "squote = CHR 0x27"

definition dquote :: char where
  "dquote = CHR 0x22"

definition hex2 :: "nat \<Rightarrow> string" where
  "hex2 n = [''0123456789abcdef'' ! (n div 16 mod 16), ''0123456789abcdef'' ! (n mod 16)]"

definition repr_char :: "char \<Rightarrow> char \<Rightarrow> string" where
  "repr_char q c =
     (if c = q \<or> c = bsl then [bsl, c]
      else if c = CHR 0x09 then [bsl, CHR ''t'']
      else if c = nl then [bsl, CHR ''n'']
      else if c = CHR 0x0D then [bsl, CHR ''r'']
      else if of_char c < (32::nat) \<or> of_char c = (127::nat) then bsl # CHR ''x'' # hex2 (of_char c)
      else [c])"

definition repr_str :: "string \<Rightarrow> string" where
  "repr_str s =
     (let q = (if squote \<in> set s \<and> dquote \<notin> set s then dquote else squote)
      in q # concat (map (repr_char q) s) @ [q])"

function (sequential) py_repr :: "pyval \<Rightarrow> string"
  and py_repr_list :: "pyval list \<Rightarrow> string list"
  and py_repr_items :: "(pyval \<times> pyval) list \<Rightarrow> string list" where
  "py_repr PNone = ''None''"
| "py_repr (PInt i) = str_of_int i"
| "py_repr (PStr s) = repr_str s"
| "py_repr (PList xs) = ''['' @ str_join '', '' (py_repr_list xs) @ '']''"
| "py_repr (PDict kvs) = ''{'' @ str_join '', '' (py_repr_items kvs) @ ''}''"
| "py_repr_list [] = []"
| "py_repr_list (x # xs) = py_repr x # py_repr_list xs"
| "py_repr_items [] = []"
| "py_repr_items ((k, v) # kvs) = (py_repr k @ '': '' @ py_repr v) # py_repr_items kvs"
  by pat_completeness auto
termination
  by (relation "measure (case_sum size (case_sum (size_list size)
        (size_list (size_prod size size))))") auto

text \<open>\<^verbatim>\<open>str(v)\<close>: a string is itself, every other value is printed as \<^verbatim>\<open>repr\<close> does.\<close>

fun py_str :: "pyval \<Rightarrow> string" where
  "py_str (PStr s) = s"
| "py_str v = py_repr v"

section \<open>The schema layer of main.py and agentstate.py\<close>

text \<open>
  The Pydantic models that the reasoning service answers in. A value of one of these
  types is what the schema-conformance contract lets through: the field types are
  checked, the wishes written in the field descriptions (how many projects, how many
  technologies) are not.
\<close>

record WorkExperience =
  we_company :: string
  we_role :: string
  we_duration :: string
  we_achievements :: "string list"

record Education =
  ed_institution :: string
  ed_degree :: string
  ed_duration :: string

record Project =
  pr_name :: string
  pr_technologies :: "string list"
  pr_date :: string
  pr_achievements :: "string list"

record PositionOfResponsibility =
  po_organization :: string
  po_role :: string
  po_duration :: string
  po_location :: "string option"
  po_description :: string

record Certification =
  ce_name :: string
  ce_issuer :: "string option"
  ce_date :: "string option"

record CodingStats =
  cs_platform :: string
  cs_description :: string

record ExtractedResumeInfo =
  ex_name :: string
  ex_email :: string
  ex_phone :: "string option"
  ex_github :: "string option"
  ex_linkedin :: "string option"
  ex_experiences :: "WorkExperience list"
  ex_education :: "Education list"
  ex_projects :: "Project list"
  ex_technical_skills :: pydict
  ex_soft_skills :: "string list"
  ex_positions_of_responsibility :: "PositionOfResponsibility list"
  ex_certifications :: "Certification list"
  ex_coding_stats :: "CodingStats list option"

record GeneratedProjects =
  gp_projects :: "Project list"

record TechnicalSkills =
  ts_skills :: pydict

text \<open>The assembled record, \<^verbatim>\<open>ResumeMetadata\<close> of agentstate.py.\<close>

record ResumeMetadata =
  md_name :: string
  md_email :: string
  md_phone :: "string option"
  md_github :: "string option"
  md_linkedin :: "string option"
  md_experiences :: "pyval list"
  md_education :: "pyval list"
  md_projects :: "pyval list"
  md_technical_skills :: pydict
  md_soft_skills :: "string list"
  md_positions_of_responsibility :: "pyval list"
  md_certifications :: "pyval list"
  md_coding_stats :: "pydict option"

datatype message = HumanMessage string | SystemMessage string

text \<open>
  The pipeline state, \<^verbatim>\<open>AgentState\<close>. The three fields typed \<^verbatim>\<open>Optional[dict]\<close> or
  \<^verbatim>\<open>Optional[List[dict]]\<close> hold Python values, \<^term>\<open>PNone\<close> until their stage has run.
\<close>

record AgentState =
  resume_text :: string
  job_description :: string
  extracted_info :: pyval
  generated_projects :: pyval
  generated_skills :: pyval
  resume_metadata :: "ResumeMetadata option"
  latex_code :: "string option"
  messages :: "message list"

subsection \<open>\<^verbatim>\<open>model_dump\<close>\<close>

definition dump_opt_str :: "string option \<Rightarrow> pyval" where
  "dump_opt_str x = (case x of None \<Rightarrow> PNone | Some s \<Rightarrow> PStr s)"

definition dump_WorkExperience :: "WorkExperience \<Rightarrow> pyval" where
  "dump_WorkExperience w =
     PDict [(PStr ''company'', PStr (we_company w)),
            (PStr ''role'', PStr (we_role w)),
            (PStr ''duration'', PStr (we_duration w)),
            (PStr ''achievements'', PList (map PStr (we_achievements w)))]"

definition dump_Education :: "Education \<Rightarrow> pyval" where
  "dump_Education e =
     PDict [(PStr ''institution'', PStr (ed_institution e)),
            (PStr ''degree'', PStr (ed_degree e)),
            (PStr ''duration'', PStr (ed_duration e))]"

definition dump_Project :: "Project \<Rightarrow> pyval" where
  "dump_Project p =
     PDict [(PStr ''name'', PStr (pr_name p)),
            (PStr ''technologies'', PList (map PStr (pr_technologies p))),
            (PStr ''date'', PStr (pr_date p)),
            (PStr ''achievements'', PList (map PStr (pr_achievements p)))]"

definition dump_PositionOfResponsibility :: "PositionOfResponsibility \<Rightarrow> pyval" where
  "dump_PositionOfResponsibility r =
     PDict [(PStr ''organization'', PStr (po_organization r)),
            (PStr ''role'', PStr (po_role r)),
            (PStr ''duration'', PStr (po_duration r)),
            (PStr ''location'', dump_opt_str (po_location r)),
            (PStr ''description'', PStr (po_description r))]"

definition dump_Certification :: "Certification \<Rightarrow> pyval" where
  "dump_Certification c =
     PDict [(PStr ''name'', PStr (ce_name c)),
            (PStr ''issuer'', dump_opt_str (ce_issuer c)),
            (PStr ''date'', dump_opt_str (ce_date c))]"

definition dump_CodingStats :: "CodingStats \<Rightarrow> pyval" where
  "dump_CodingStats c =
     PDict [(PStr ''platform'', PStr (cs_platform c)),
            (PStr ''description'', PStr (cs_description c))]"

definition dump_ExtractedResumeInfo :: "ExtractedResumeInfo \<Rightarrow> pyval" where
  "dump_ExtractedResumeInfo x =
     PDict [(PStr ''name'', PStr (ex_name x)),
            (PStr ''email'', PStr (ex_email x)),
            (PStr ''phone'', dump_opt_str (ex_phone x)),
            (PStr ''github'', dump_opt_str (ex_github x)),
            (PStr ''linkedin'', dump_opt_str (ex_linkedin x)),
            (PStr ''experiences'', PList (map dump_WorkExperience (ex_experiences x))),
            (PStr ''education'', PList (map dump_Education (ex_education x))),
            (PStr ''projects'', PList (map dump_Project (ex_projects x))),
            (PStr ''technical_skills'', PDict (ex_technical_skills x)),
            (PStr ''soft_skills'', PList (map PStr (ex_soft_skills x))),
            (PStr ''positions_of_responsibility'',
               PList (map dump_PositionOfResponsibility (ex_positions_of_responsibility x))),
            (PStr ''certifications'', PList (map dump_Certification (ex_certifications x))),
            (PStr ''coding_stats'',
               (case ex_coding_stats x of None \<Rightarrow> PNone
                | Some cs \<Rightarrow> PList (map dump_CodingStats cs)))]"

subsection \<open>Validation by the \<^verbatim>\<open>ResumeMetadata\<close> constructor\<close>

text \<open>
  Pydantic checks each argument against the field's type and raises when one does not
  fit: \<^verbatim>\<open>str\<close>, \<^verbatim>\<open>Optional[str]\<close>, \<^verbatim>\<open>List[dict]\<close>, \<^verbatim>\<open>dict\<close>, \<^verbatim>\<open>List[str]\<close>.
\<close>

fun validate_str :: "pyval \<Rightarrow> error + string" where
  "validate_str (PStr s) = Inr s"
| "validate_str _ = Inl ValidationError"

fun validate_opt_str :: "pyval \<Rightarrow> error + string option" where
  "validate_opt_str PNone = Inr None"
| "validate_opt_str (PStr s) = Inr (Some s)"
| "validate_opt_str _ = Inl ValidationError"

fun is_dict :: "pyval \<Rightarrow> bool" where
  "is_dict (PDict kvs) = True"
| "is_dict _ = False"

fun validate_dict_list :: "pyval \<Rightarrow> error + pyval list" where
  "validate_dict_list (PList xs) = (if list_all is_dict xs then Inr xs else Inl ValidationError)"
| "validate_dict_list _ = Inl ValidationError"

fun validate_dict :: "pyval \<Rightarrow> error + pydict" where
  "validate_dict (PDict kvs) = Inr kvs"
| "validate_dict _ = Inl ValidationError"

fun validate_str_list :: "pyval \<Rightarrow> error + string list" where
  "validate_str_list (PList xs) = emap validate_str xs"
| "validate_str_list _ = Inl ValidationError"

section \<open>The stages of main.py\<close>


text \<open>
  \<^verbatim>\<open>generate_projects\<close> reads \<^verbatim>\<open>state["extracted_info"].get("experiences", [])\<close> for the
  prompt before the call, which raises when the extraction has not run.
\<close>

definition generate_projects ::
  "AgentState \<Rightarrow> error + GeneratedProjects \<Rightarrow> error + AgentState" where
  "generate_projects state reply =
     ebind (py_get (extracted_info state) ''experiences'' (PList [])) (\<lambda>experience_summary.
     ebind reply (\<lambda>result.
       Inr (state\<lparr>generated_projects := PList (map dump_Project (gp_projects result)),
                  messages := [HumanMessage (''Generated ''
                     @ str_of_int (int (length (gp_projects result)))
                     @ '' relevant projects'')]\<rparr>)))"

definition generate_skills ::
  "AgentState \<Rightarrow> error + TechnicalSkills \<Rightarrow> error + AgentState" where
  "generate_skills state reply =
     ebind reply (\<lambda>result.
       Inr (state\<lparr>generated_skills := PDict (ts_skills result),
                  messages := [HumanMessage ''Generated relevant technical skills'']\<rparr>))"

subsection \<open>The assembly stage, \<^verbatim>\<open>create_metadata\<close>\<close>

definition format_experience :: "pyval \<Rightarrow> error + pyval" where
  "format_experience exp =
     ebind (py_get exp ''company'' (PStr [])) (\<lambda>company.
     ebind (py_get exp ''role'' (PStr [])) (\<lambda>role.
     ebind (py_get exp ''duration'' (PStr [])) (\<lambda>duration.
     ebind (py_get exp ''achievements'' (PList [])) (\<lambda>achievements.
       Inr (PDict [(PStr ''company'', company),
                   (PStr ''role'', role),
                   (PStr ''duration'', duration),
                   (PStr ''achievements'', achievements)])))))"

definition format_por :: "pyval \<Rightarrow> error + pyval" where
  "format_por por =
     ebind (py_get por ''organization'' (PStr [])) (\<lambda>organization.
     ebind (py_get por ''role'' (PStr [])) (\<lambda>role.
     ebind (py_get por ''duration'' (PStr [])) (\<lambda>duration.
     ebind (py_get por ''location'' (PStr [])) (\<lambda>location.
     ebind (py_get por ''description'' (PStr [])) (\<lambda>description.
       Inr (PDict [(PStr ''organization'', organization),
                   (PStr ''role'', role),
                   (PStr ''duration'', duration),
                   (PStr ''location'', location),
                   (PStr ''description'', description)]))))))"

definition format_certification :: "pyval \<Rightarrow> error + pyval" where
  "format_certification cert =
     ebind (py_get cert ''name'' (PStr [])) (\<lambda>name.
     ebind (py_get cert ''issuer'' (PStr [])) (\<lambda>issuer.
     ebind (py_get cert ''date'' (PStr [])) (\<lambda>date.
       Inr (PDict [(PStr ''name'', name),
                   (PStr ''issuer'', issuer),
                   (PStr ''date'', date)]))))"

definition format_project :: "pyval \<Rightarrow> error + pyval" where
  "format_project proj =
     ebind (py_get proj ''name'' (PStr [])) (\<lambda>name.
     ebind (py_get proj ''technologies'' (PList [])) (\<lambda>technologies.
     ebind (py_get proj ''date'' (PStr [])) (\<lambda>date.
     ebind (py_get proj ''achievements'' (PList [])) (\<lambda>achievements.
       Inr (PDict [(PStr ''name'', name),
                   (PStr ''technologies'', technologies),
                   (PStr ''date'', date),
                   (PStr ''achievements'', achievements)])))))"

text \<open>
  The choice of the projects to assemble (lines 261 to 265): the generated ones when
  that field is truthy, the extracted ones otherwise.
\<close>

definition raw_projects :: "AgentState \<Rightarrow> pyval \<Rightarrow> error + pyval" where
  "raw_projects state extracted =
     (if truthy (generated_projects state) then Inr (generated_projects state)
      else py_get extracted ''projects'' (PList []))"

text \<open>
  The dictionary comprehension of line 279,
  \<^verbatim>\<open>{item["platform"]: item["description"] for item in raw_coding if isinstance(item, dict)}\<close>:
  an item that is not a dictionary is skipped; for a dictionary the key expression is
  evaluated, then the value expression, each raising KeyError on a missing key, and the
  entry is stored, which raises TypeError on an unhashable key.
\<close>

fun coding_comprehension :: "pyval list \<Rightarrow> pydict \<Rightarrow> error + pydict" where
  "coding_comprehension [] acc = Inr acc"
| "coding_comprehension (PDict item # items) acc =
     ebind (dict_index item ''platform'') (\<lambda>k.
     ebind (dict_index item ''description'') (\<lambda>v.
       if hashable k then coding_comprehension items (dict_set acc k v)
       else Inl TypeError))"
| "coding_comprehension (_ # items) acc = coding_comprehension items acc"

text \<open>The normalisation of the coding statistics (lines 277 to 283).\<close>

fun coding_stats_of :: "pyval \<Rightarrow> error + pydict option" where
  "coding_stats_of (PList items) = ebind (coding_comprehension items []) (\<lambda>d. Inr (Some d))"
| "coding_stats_of (PDict kvs) = Inr (Some kvs)"
| "coding_stats_of _ = Inr None"

definition create_metadata :: "AgentState \<Rightarrow> error + AgentState" where
  "create_metadata state =
     (let extracted = extracted_info state in
      ebind (py_get extracted ''experiences'' (PList [])) (\<lambda>exps.
      ebind (py_iter exps) (\<lambda>exps.
      ebind (emap format_experience exps) (\<lambda>formatted_experiences.
      ebind (py_get extracted ''positions_of_responsibility'' (PList [])) (\<lambda>pors.
      ebind (py_iter pors) (\<lambda>pors.
      ebind (emap format_por pors) (\<lambda>formatted_por.
      ebind (py_get extracted ''certifications'' (PList [])) (\<lambda>certs.
      ebind (py_iter certs) (\<lambda>certs.
      ebind (emap format_certification certs) (\<lambda>formatted_certifications.
      ebind (raw_projects state extracted) (\<lambda>raw.
      ebind (py_iter raw) (\<lambda>raw.
      ebind (emap format_project raw) (\<lambda>formatted_projects.
      ebind (py_get extracted ''coding_stats'' PNone) (\<lambda>raw_coding.
      ebind (coding_stats_of raw_coding) (\<lambda>coding_stats.
      ebind (py_get extracted ''name'' (PStr ''John Doe'')) (\<lambda>name.
      ebind (py_get extracted ''email'' (PStr ''john@example.com'')) (\<lambda>email.
      ebind (py_get extracted ''phone'' PNone) (\<lambda>phone.
      ebind (py_get extracted ''github'' PNone) (\<lambda>github.
      ebind (py_get extracted ''linkedin'' PNone) (\<lambda>linkedin.
      ebind (py_get extracted ''education'' (PList [])) (\<lambda>education.
      ebind (py_get extracted ''technical_skills'' (PDict [])) (\<lambda>skills.
      ebind (py_get extracted ''soft_skills'' (PList [])) (\<lambda>soft_skills.
      ebind (validate_str name) (\<lambda>name.
      ebind (validate_str email) (\<lambda>email.
      ebind (validate_opt_str phone) (\<lambda>phone.
      ebind (validate_opt_str github) (\<lambda>github.
      ebind (validate_opt_str linkedin) (\<lambda>linkedin.
      ebind (validate_dict_list education) (\<lambda>education.
      ebind (validate_dict (py_or (generated_skills state) skills)) (\<lambda>technical_skills.
      ebind (validate_str_list soft_skills) (\<lambda>soft_skills.
        Inr (state\<lparr>resume_metadata := Some
               \<lparr>md_name = name,
                md_email = email,
                md_phone = phone,
                md_github = github,
                md_linkedin = linkedin,
                md_experiences = formatted_experiences,
                md_education = education,
                md_projects = formatted_projects,
                md_technical_skills = technical_skills,
                md_soft_skills = soft_skills,
                md_positions_of_responsibility = formatted_por,
                md_certifications = formatted_certifications,
                md_coding_stats = coding_stats\<rparr>,
              messages := [HumanMessage ''Created resume metadata'']\<rparr>
      ))))))))))))))))))))))))))))))))"

section \<open>The typesetting collaborator, online_compiler.py\<close>

type_synonym bytes = "8 word list"

text \<open>
  What one HTTP request comes to: a response with its status code, its body as bytes
  and its body as text, or one of the exceptions the service functions tell apart,
  with the exception's message.
\<close>

datatype outcome =
    Response int bytes string
  | Timeout string
  | RequestException string
  | OtherException string

text \<open>The network as the compiler sees it: the answers to its POST and to its GET.\<close>

record network =
  post :: "string \<Rightarrow> int \<Rightarrow> outcome"
  get :: "string \<Rightarrow> int \<Rightarrow> outcome"

type_synonym compile_result = "bool \<times> bytes option \<times> string"

text \<open>The four bytes \<^verbatim>\<open>b'%PDF'\<close>.\<close>

definition pdf_magic :: bytes where
  "pdf_magic = [0x25, 0x50, 0x44, 0x46]"

definition compile_with_ytotech_json :: "network \<Rightarrow> string \<Rightarrow> int \<Rightarrow> compile_result" where
  "compile_with_ytotech_json net latex timeout =
     (case post net latex timeout of
        Response status_code content text \<Rightarrow>
          if status_code \<in> set [200, 201] then
            if take 4 content = pdf_magic then (True, Some content, [])
            else
              let error_text = (if text \<noteq> [] then take 200 text else ''Invalid response format'')
              in (False, None, ''Got non-PDF response: '' @ error_text)
          else
            let error_text = (if text \<noteq> [] then take 300 text else ''Unknown error'')
            in (False, None, ''HTTP '' @ str_of_int status_code @ '': '' @ error_text)
      | Timeout e \<Rightarrow> (False, None, ''Request timeout (>45s)'')
      | RequestException e \<Rightarrow> (False, None, ''Network error: '' @ take 100 e)
      | OtherException e \<Rightarrow> (False, None, ''Error: '' @ take 100 e))"

text \<open>The GET service has one handler for every exception.\<close>

definition compile_with_ytotech_get :: "network \<Rightarrow> string \<Rightarrow> int \<Rightarrow> compile_result" where
  "compile_with_ytotech_get net latex timeout =
     (case get net latex timeout of
        Response status_code content text \<Rightarrow>
          if status_code \<in> set [200, 201] then
            if take 4 content = pdf_magic then (True, Some content, [])
            else (False, None, ''Got non-PDF response'')
          else
            let error_text = (if text \<noteq> [] then take 200 text else ''Unknown error'')
            in (False, None, ''HTTP '' @ str_of_int status_code @ '': '' @ error_text)
      | Timeout e \<Rightarrow> (False, None, ''Error: '' @ take 100 e)
      | RequestException e \<Rightarrow> (False, None, ''Error: '' @ take 100 e)
      | OtherException e \<Rightarrow> (False, None, ''Error: '' @ take 100 e))"

text \<open>
  The loop of \<^verbatim>\<open>compile_latex_online\<close> over the list of named services. A service either
  returns its triple or raises (\<^term>\<open>Inl\<close> with the exception's message); the loop returns
  at the first success and otherwise collects one line per service.
\<close>

fun try_services ::
  "(string \<times> (string \<Rightarrow> int \<Rightarrow> string + compile_result)) list \<Rightarrow> string \<Rightarrow> int
     \<Rightarrow> string list \<Rightarrow> compile_result" where
  "try_services [] latex timeout errors =
     (False, None, ''All compilation services failed: '' @ str_join ''; '' errors)"
| "try_services ((service_name, service_func) # services) latex timeout errors =
     (case service_func latex timeout of
        Inr (success, pdf_bytes, error) \<Rightarrow>
          if success then (True, pdf_bytes, [])
          else try_services services latex timeout
                 (errors @ [service_name @ '': '' @ error])
      | Inl e \<Rightarrow>
          try_services services latex timeout
            (errors @ [service_name @ '': '' @ take 100 e]))"

definition compile_latex_online :: "network \<Rightarrow> string \<Rightarrow> int \<Rightarrow> compile_result" where
  "compile_latex_online net latex timeout =
     try_services
       [(''YtoTech JSON POST'', \<lambda>c t. Inr (compile_with_ytotech_json net c t)),
        (''YtoTech GET'', \<lambda>c t. Inr (compile_with_ytotech_get net c t))]
       latex timeout []"

subsection \<open>The retry helper, defined twice in the source\<close>

text \<open>
  The state of the \<^verbatim>\<open>for\<close> loop is the variable \<^verbatim>\<open>error\<close>, unbound until the first
  attempt has run, and the waits \<^verbatim>\<open>time.sleep\<close> was called with. The network may answer
  differently at each attempt: \<^verbatim>\<open>nets attempt\<close> is the network at that attempt. The
  loop gives the triple it returned from inside, if it did, the last \<^verbatim>\<open>error\<close> and the
  waits.
\<close>

text \<open>The first definition (lines 151 to 178).\<close>

fun retry_loop_first ::
  "(nat \<Rightarrow> network) \<Rightarrow> string \<Rightarrow> int \<Rightarrow> int \<Rightarrow> nat list \<Rightarrow> string option \<Rightarrow> int list
     \<Rightarrow> compile_result option \<times> string option \<times> int list" where
  "retry_loop_first nets latex max_retries timeout [] err sleeps = (None, err, sleeps)"
| "retry_loop_first nets latex max_retries timeout (attempt # rest) err sleeps =
     (case compile_latex_online (nets attempt) latex timeout of
        (success, pdf_bytes, error) \<Rightarrow>
          if success then (Some (True, pdf_bytes, []), Some error, sleeps)
          else if int attempt < max_retries - 1
            then retry_loop_first nets latex max_retries timeout rest (Some error)
                   (sleeps @ [2 * (int attempt + 1)])
          else retry_loop_first nets latex max_retries timeout rest (Some error) sleeps)"

definition compile_latex_with_retry_first ::
  "(nat \<Rightarrow> network) \<Rightarrow> string \<Rightarrow> int \<Rightarrow> int \<Rightarrow> (error + compile_result) \<times> int list" where
  "compile_latex_with_retry_first nets latex max_retries timeout =
     (case retry_loop_first nets latex max_retries timeout [0..<nat max_retries] None [] of
        (Some r, err, sleeps) \<Rightarrow> (Inr r, sleeps)
      | (None, None, sleeps) \<Rightarrow> (Inl UnboundLocalError, sleeps)
      | (None, Some error, sleeps) \<Rightarrow>
          (Inr (False, None,
             ''Compilation failed after '' @ str_of_int max_retries @ '' attempts: '' @ error),
           sleeps))"

text \<open>
  The second definition (lines 181 to 208), which is the one the module name is bound
  to once the file has been loaded.
\<close>

fun retry_loop ::
  "(nat \<Rightarrow> network) \<Rightarrow> string \<Rightarrow> int \<Rightarrow> int \<Rightarrow> nat list \<Rightarrow> string option \<Rightarrow> int list
     \<Rightarrow> compile_result option \<times> string option \<times> int list" where
  "retry_loop nets latex max_retries timeout [] err sleeps = (None, err, sleeps)"
| "retry_loop nets latex max_retries timeout (attempt # rest) err sleeps =
     (case compile_latex_online (nets attempt) latex timeout of
        (success, pdf_bytes, error) \<Rightarrow>
          if success then (Some (True, pdf_bytes, []), Some error, sleeps)
          else if int attempt < max_retries - 1
            then retry_loop nets latex max_retries timeout rest (Some error)
                   (sleeps @ [2 * (int attempt + 1)])
          else retry_loop nets latex max_retries timeout rest (Some error) sleeps)"

definition compile_latex_with_retry ::
  "(nat \<Rightarrow> network) \<Rightarrow> string \<Rightarrow> int \<Rightarrow> int \<Rightarrow> (error + compile_result) \<times> int list" where
  "compile_latex_with_retry nets latex max_retries timeout =
     (case retry_loop nets latex max_retries timeout [0..<nat max_retries] None [] of
        (Some r, err, sleeps) \<Rightarrow> (Inr r, sleeps)
      | (None, None, sleeps) \<Rightarrow> (Inl UnboundLocalError, sleeps)
      | (None, Some error, sleeps) \<Rightarrow>
          (Inr (False, None,
             ''Compilation failed after '' @ str_of_int max_retries @ '' attempts: '' @ error),
           sleeps))"

section \<open>The rendering stage, latex_handler.py\<close>

text \<open>The table of \<^verbatim>\<open>escape_latex\<close>, in the order of the source.\<close>

definition replacements :: "(string \<times> string) list" where
  "replacements =
    [([bsl], bsl # ''textbackslash{}''),
     (''%'', bsl # ''%''),
     (''#'', bsl # ''#''),
     (''_'', bsl # ''_''),
     (''{'', bsl # ''{''),
     (''}'', bsl # ''}''),
     (''~'', bsl # ''textasciitilde{}''),
     (''^'', bsl # ''textasciicircum{}'')]"

text \<open>
  \<^verbatim>\<open>escape_latex\<close>: a falsy argument gives the empty string; otherwise the argument is
  turned into a string, the loop runs the table from the first pair to the last, and
  the ampersand is replaced only when the text, as it is after the loop, has no
  backslash followed by an ampersand.
\<close>

definition escape_latex :: "pyval \<Rightarrow> string" where
  "escape_latex text =
     (if \<not> truthy text then []
      else
        let text0 = py_str text;
            text1 = foldl (\<lambda>t (old, new). str_replace old new t) text0 replacements
        in if \<not> str_contains (bsl # ''&'') text1
           then str_replace ''&'' (bsl # ''&'') text1
           else text1)"

subsection \<open>The fragments of the sections\<close>

text \<open>The body of the loop over \<^verbatim>\<open>metadata.experiences\<close>.\<close>

definition render_experience :: "pyval \<Rightarrow> error + string" where
  "render_experience exp =
     ebind (py_get exp ''company'' (PStr ''Company'')) (\<lambda>company.
     ebind (py_get exp ''duration'' (PStr ''Date'')) (\<lambda>duration.
     ebind (py_get exp ''role'' (PStr ''Role'')) (\<lambda>role.
     ebind (py_get exp ''achievements'' (PList [])) (\<lambda>achievements.
     ebind (py_iter achievements) (\<lambda>achievements.
       Inr ((''    '' @ bsl # ''resumeSubheading{'') @ escape_latex company @ ''}{'' @ escape_latex duration
              @ ''}{'' @ escape_latex role @ (''}{}'' @ bsl # ''resumeItemListStart'' @ [nl])
            @ concat (map (\<lambda>achievement.
                (''        '' @ bsl # ''resumeItem{'') @ escape_latex achievement @ (''}'' @ [nl])) achievements)
            @ (''    '' @ bsl # ''resumeItemListEnd'' @ nl # [nl])))))))"

text \<open>The fragment of the \<^verbatim>\<open>else\<close> branch of the experience section.\<close>

definition experience_placeholder :: string where
  "experience_placeholder =
     ''    '' @ bsl # ''resumeSubheading{Add Your Experience Here}{Jan 2024 - Present}{Role}{}'' @ bsl # ''resumeItemListStart'' @ nl # ''        '' @ bsl # ''resumeItem{Description of your work experience}'' @ nl # ''    '' @ bsl # ''resumeItemListEnd'' @ nl # [nl]"

definition experience_latex :: "ResumeMetadata \<Rightarrow> error + string" where
  "experience_latex metadata =
     (if md_experiences metadata \<noteq> [] \<and> length (md_experiences metadata) > 0
      then ebind (emap render_experience (md_experiences metadata)) (\<lambda>fs. Inr (concat fs))
      else Inr experience_placeholder)"

definition render_education :: "pyval \<Rightarrow> error + string" where
  "render_education edu =
     ebind (py_get edu ''institution'' (PStr ''Institution'')) (\<lambda>institution.
     ebind (py_get edu ''duration'' (PStr ''Date'')) (\<lambda>duration.
     ebind (py_get edu ''degree'' (PStr ''Degree'')) (\<lambda>degree.
       Inr ((''    '' @ bsl # ''resumeSubheading{'') @ escape_latex institution @ ''}{'' @ escape_latex duration
              @ ''}{'' @ escape_latex degree @ (''}{}'' @ bsl # ''vspace{-7pt}'' @ [nl])))))"

text \<open>The fragment of the \<^verbatim>\<open>else\<close> branch of the education section.\<close>

definition education_placeholder :: string where
  "education_placeholder =
     ''    '' @ bsl # ''resumeSubheading{Your University}{2020 - 2024}{Your Degree}{}'' @ bsl # ''vspace{-7pt}'' @ [nl]"

definition education_latex :: "ResumeMetadata \<Rightarrow> error + string" where
  "education_latex metadata =
     (if md_education metadata \<noteq> [] \<and> length (md_education metadata) > 0
      then ebind (emap render_education (md_education metadata)) (\<lambda>fs. Inr (concat fs))
      else Inr education_placeholder)"

definition render_project :: "pyval \<Rightarrow> error + string" where
  "render_project proj =
     ebind (py_get proj ''name'' (PStr ''Project'')) (\<lambda>project_name.
     ebind (py_get proj ''technologies'' (PList [])) (\<lambda>technologies.
     ebind (py_iter technologies) (\<lambda>technologies.
     ebind (py_get proj ''date'' (PStr ''Date'')) (\<lambda>date.
     ebind (py_get proj ''achievements'' (PList [])) (\<lambda>achievements.
     ebind (py_iter achievements) (\<lambda>achievements.
       let tech_stack = str_join '', '' (map (\<lambda>t. escape_latex (PStr (py_str t))) technologies)
       in Inr ((''    '' @ bsl # ''resumeProjectHeading{'' @ bsl # ''textbf{'') @ escape_latex project_name @ (''} $|$ '') @ tech_stack
                 @ ''}{'' @ escape_latex date @ (''}'' @ bsl # ''resumeItemListStart'' @ [nl])
               @ concat (map (\<lambda>achievement.
                   (''      '' @ bsl # ''resumeItem{'') @ escape_latex achievement @ (''}'' @ [nl])) achievements)
               @ (''    '' @ bsl # ''resumeItemListEnd'' @ [nl]))))))))"

text \<open>The projects section has no \<^verbatim>\<open>else\<close> branch: its fragment starts empty.\<close>

definition projects_latex :: "ResumeMetadata \<Rightarrow> error + string" where
  "projects_latex metadata =
     (if md_projects metadata \<noteq> [] \<and> length (md_projects metadata) > 0
      then ebind (emap render_project (md_projects metadata)) (\<lambda>fs. Inr (concat fs))
      else Inr [])"

text \<open>
  The loop over \<^verbatim>\<open>metadata.technical_skills.items()\<close>: a category whose value is falsy
  is left out.
\<close>

fun skills_list :: "pydict \<Rightarrow> error + string list" where
  "skills_list [] = Inr []"
| "skills_list ((category, skills) # rest) =
     (if truthy skills then
        ebind (py_iter skills) (\<lambda>ss.
          let skills_str = str_join '', '' (map (\<lambda>s. escape_latex (PStr (py_str s))) ss)
          in ebind (skills_list rest) (\<lambda>lines.
               Inr (((bsl # ''textbf{'') @ escape_latex category @ ''}: '' @ skills_str) # lines)))
      else skills_list rest)"

text \<open>The fragment of the \<^verbatim>\<open>else\<close> branch of the technical skills section.\<close>

definition skills_placeholder :: string where
  "skills_placeholder =
     bsl # ''textbf{Languages}: Python, Java, C++ '' @ bsl # bsl # nl # ''     '' @ bsl # ''textbf{Technologies}: React, Node.js, Docker''"

definition technical_skills_latex :: "ResumeMetadata \<Rightarrow> error + string" where
  "technical_skills_latex metadata =
     (if md_technical_skills metadata \<noteq> []
      then ebind (skills_list (md_technical_skills metadata)) (\<lambda>lines.
             Inr (str_join ('' '' @ bsl # bsl # nl # ''     '') lines))
      else Inr skills_placeholder)"

definition render_por :: "pyval \<Rightarrow> error + string" where
  "render_por por =
     ebind (py_get por ''organization'' (PStr ''Organization'')) (\<lambda>organization.
     ebind (py_get por ''duration'' (PStr ''Date'')) (\<lambda>duration.
     ebind (py_get por ''role'' (PStr ''Role'')) (\<lambda>role.
     ebind (py_get por ''location'' (PStr [])) (\<lambda>location.
     ebind (py_get por ''description'' (PStr [])) (\<lambda>description.
       Inr ((''        '' @ bsl # ''resumeSubheading{'') @ escape_latex organization @ ''}{'' @ escape_latex duration
              @ ''}{'' @ escape_latex role @ ''}{'' @ escape_latex location
              @ (''}'' @ bsl # ''resumeItemListStart'' @ [nl])
            @ (''            '' @ bsl # ''resumeItem{'') @ escape_latex description @ (''}'' @ [nl])
            @ (''        '' @ bsl # ''resumeItemListEnd'' @ nl # [nl])))))))"

text \<open>The fragment of the \<^verbatim>\<open>else\<close> branch of the positions section.\<close>

definition positions_placeholder :: string where
  "positions_placeholder =
     ''        '' @ bsl # ''resumeSubheading{Organization Name}{2022 - 2024}{Your Role}{}'' @ bsl # ''resumeItemListStart'' @ nl # ''            '' @ bsl # ''resumeItem{Description of your responsibilities}'' @ nl # ''        '' @ bsl # ''resumeItemListEnd'' @ nl # [nl]"

definition por_latex :: "ResumeMetadata \<Rightarrow> error + string" where
  "por_latex metadata =
     (if md_positions_of_responsibility metadata \<noteq> []
         \<and> length (md_positions_of_responsibility metadata) > 0
      then ebind (emap render_por (md_positions_of_responsibility metadata))
             (\<lambda>fs. Inr (concat fs))
      else Inr positions_placeholder)"

subsection \<open>The template\<close>

text \<open>
  The template of \<^verbatim>\<open>get_latex_template\<close> is one raw string. It is written here line by
  line, each line with the newline that ends it, and the lines are grouped at the
  comments that head the sections of the template.
\<close>

text \<open>Lines of the template: the packages, the layout and the commands, up to the start of the document.\<close>

definition template_preamble :: "string list" where
  "template_preamble =
    [''%-------------------------'' @ [nl],
     ''% Resume in Latex'' @ [nl],
     ''%------------------------'' @ [nl],
     [nl],
     bsl # ''documentclass[letterpaper,11pt]{article}'' @ [nl],
     [nl],
     bsl # ''usepackage{latexsym}'' @ [nl],
     bsl # ''usepackage[empty]{fullpage}'' @ [nl],
     bsl # ''usepackage{titlesec}'' @ [nl],
     bsl # ''usepackage{marvosym}'' @ [nl],
     bsl # ''usepackage[usenames,dvipsnames]{color}'' @ [nl],
     bsl # ''usepackage{verbatim}'' @ [nl],
     bsl # ''usepackage{enumitem}'' @ [nl],
     bsl # ''usepackage[hidelinks]{hyperref}'' @ [nl],
     bsl # ''usepackage{fancyhdr}'' @ [nl],
     bsl # ''usepackage[english]{babel}'' @ [nl],
     bsl # ''usepackage{tabularx}'' @ [nl],
     bsl # ''usepackage{fontawesome5}'' @ [nl],
     bsl # ''usepackage{multicol}'' @ [nl],
     bsl # ''setlength{'' @ bsl # ''multicolsep}{-3.0pt}'' @ [nl],
     bsl # ''setlength{'' @ bsl # ''columnsep}{-1pt}'' @ [nl],
     bsl # ''input{glyphtounicode}'' @ [nl],
     [nl],
     bsl # ''pagestyle{fancy}'' @ [nl],
     bsl # ''fancyhf{}'' @ [nl],
     bsl # ''fancyfoot{}'' @ [nl],
     bsl # ''renewcommand{'' @ bsl # ''headrulewidth}{0pt}'' @ [nl],
     bsl # ''renewcommand{'' @ bsl # ''footrulewidth}{0pt}'' @ [nl],
     [nl],
     ''% Adjust margins'' @ [nl],
     bsl # ''addtolength{'' @ bsl # ''oddsidemargin}{-0.6in}'' @ [nl],
     bsl # ''addtolength{'' @ bsl # ''evensidemargin}{-0.5in}'' @ [nl],
     bsl # ''addtolength{'' @ bsl # ''textwidth}{1.19in}'' @ [nl],
     bsl # ''addtolength{'' @ bsl # ''topmargin}{-.7in}'' @ [nl],
     bsl # ''addtolength{'' @ bsl # ''textheight}{1.4in}'' @ [nl],
     [nl],
     bsl # ''urlstyle{same}'' @ [nl],
     [nl],
     bsl # ''raggedbottom'' @ [nl],
     bsl # ''raggedright'' @ [nl],
     bsl # ''setlength{'' @ bsl # ''tabcolsep}{0in}'' @ [nl],
     [nl],
     ''% Sections formatting'' @ [nl],
     bsl # ''titleformat{'' @ bsl # ''section}{'' @ bsl # ''vspace{-4pt}'' @ bsl # ''scshape'' @ bsl # ''raggedright'' @ bsl # ''large'' @ bsl # ''bfseries}{}{0em}{}['' @ bsl # ''color{black}'' @ bsl # ''titlerule'' @ bsl # ''vspace{-5pt}]'' @ [nl],
     [nl],
     ''% Ensure that generate pdf is machine readable/ATS parsable'' @ [nl],
     bsl # ''pdfgentounicode=1'' @ [nl],
     [nl],
     ''%-------------------------'' @ [nl],
     ''% Custom commands'' @ [nl],
     bsl # ''newcommand{'' @ bsl # ''resumeItem}[1]{'' @ [nl],
     ''  '' @ bsl # ''item'' @ bsl # ''small{'' @ [nl],
     ''    {#1 '' @ bsl # ''vspace{-2pt}}'' @ [nl],
     ''  }'' @ [nl],
     ''}'' @ [nl],
     [nl],
     bsl # ''newcommand{'' @ bsl # ''resumeSubheading}[4]{'' @ [nl],
     ''  '' @ bsl # ''vspace{-2pt}'' @ bsl # ''item'' @ [nl],
     ''    '' @ bsl # ''begin{tabular*}{1.0'' @ bsl # ''textwidth}[t]{l@'' @ ''{'' @ bsl # ''extracolsep{'' @ bsl # ''fill}}r}'' @ [nl],
     ''      '' @ bsl # ''textbf{#1} & '' @ bsl # ''textbf{'' @ bsl # ''small #2} '' @ bsl # bsl # [nl],
     ''      '' @ bsl # ''textit{'' @ bsl # ''small#3} & '' @ bsl # ''textit{'' @ bsl # ''small #4} '' @ bsl # bsl # [nl],
     ''    '' @ bsl # ''end{tabular*}'' @ bsl # ''vspace{-7pt}'' @ [nl],
     ''}'' @ [nl],
     [nl],
     bsl # ''newcommand{'' @ bsl # ''resumeProjectHeading}[2]{'' @ [nl],
     ''    '' @ bsl # ''item'' @ [nl],
     ''    '' @ bsl # ''begin{tabular*}{1.001'' @ bsl # ''textwidth}{l@'' @ ''{'' @ bsl # ''extracolsep{'' @ bsl # ''fill}}r}'' @ [nl],
     ''      '' @ bsl # ''small#1 & '' @ bsl # ''textbf{'' @ bsl # ''small #2}'' @ bsl # bsl # [nl],
     ''    '' @ bsl # ''end{tabular*}'' @ bsl # ''vspace{-7pt}'' @ [nl],
     ''}'' @ [nl],
     [nl],
     bsl # ''newcommand{'' @ bsl # ''resumeSubItem}[1]{'' @ bsl # ''resumeItem{#1}'' @ bsl # ''vspace{-4pt}}'' @ [nl],
     [nl],
     bsl # ''renewcommand'' @ bsl # ''labelitemi{$'' @ bsl # ''vcenter{'' @ bsl # ''hbox{'' @ bsl # ''tiny$'' @ bsl # ''bullet$}}$}'' @ [nl],
     bsl # ''renewcommand'' @ bsl # ''labelitemii{$'' @ bsl # ''vcenter{'' @ bsl # ''hbox{'' @ bsl # ''tiny$'' @ bsl # ''bullet$}}$}'' @ [nl],
     [nl],
     bsl # ''newcommand{'' @ bsl # ''resumeSubHeadingListStart}{'' @ bsl # ''begin{itemize}[leftmargin=0.0in, label={}]}'' @ [nl],
     bsl # ''newcommand{'' @ bsl # ''resumeSubHeadingListEnd}{'' @ bsl # ''end{itemize}}'' @ [nl],
     bsl # ''newcommand{'' @ bsl # ''resumeItemListStart}{'' @ bsl # ''begin{itemize}}'' @ [nl],
     bsl # ''newcommand{'' @ bsl # ''resumeItemListEnd}{'' @ bsl # ''end{itemize}'' @ bsl # ''vspace{-5pt}}'' @ [nl],
     [nl],
     ''%-------------------------------------------'' @ [nl],
     ''%%%%%%  RESUME STARTS HERE  %%%%%%%%%%%%%%%%%%%%%%%%%%%%'' @ [nl],
     [nl],
     bsl # ''begin{document}'' @ [nl],
     [nl]]"

text \<open>Lines of the template: the heading with the name and the contact fields.\<close>

definition template_heading :: "string list" where
  "template_heading =
    [''%----------HEADING----------'' @ [nl],
     bsl # ''begin{center}'' @ [nl],
     ''    {'' @ bsl # ''Huge '' @ bsl # ''scshape {{NAME}}} '' @ bsl # bsl # '' '' @ bsl # ''vspace{2pt}'' @ [nl],
     ''    '' @ bsl # ''small '' @ bsl # ''raisebox{-0.1'' @ bsl # ''height}'' @ bsl # ''faPhone'' @ bsl # '' {{PHONE}} ~ '' @ bsl # ''href{mailto:{{EMAIL}}}{'' @ bsl # ''raisebox{-0.2'' @ bsl # ''height}'' @ bsl # ''faEnvelope'' @ bsl # '' {{EMAIL}}} ~ '' @ [nl],
     ''    '' @ bsl # ''href{https://{{LINKEDIN}}}{'' @ bsl # ''raisebox{-0.2'' @ bsl # ''height}'' @ bsl # ''faLinkedin'' @ bsl # '' LinkedIn}'' @ [nl],
     bsl # ''end{center}'' @ [nl],
     [nl]]"

text \<open>Lines of the template: the experience section.\<close>

definition template_experience :: "string list" where
  "template_experience =
    [''%-----------EXPERIENCE-----------'' @ [nl],
     bsl # ''section{Experience}'' @ [nl],
     ''  '' @ bsl # ''resumeSubHeadingListStart'' @ [nl],
     ''{{EXPERIENCE}}  '' @ bsl # ''resumeSubHeadingListEnd'' @ [nl],
     bsl # ''vspace{-16pt}'' @ [nl],
     [nl]]"

text \<open>Lines of the template: the education section.\<close>

definition template_education :: "string list" where
  "template_education =
    [''%-----------EDUCATION-----------'' @ [nl],
     bsl # ''section{Education}'' @ [nl],
     ''  '' @ bsl # ''resumeSubHeadingListStart'' @ [nl],
     ''{{EDUCATION}}  '' @ bsl # ''resumeSubHeadingListEnd'' @ [nl],
     [nl]]"

text \<open>Lines of the template: the projects section.\<close>

definition template_projects :: "string list" where
  "template_projects =
    [''%-----------PROJECTS-----------'' @ [nl],
     bsl # ''section{Projects}'' @ [nl],
     ''    '' @ bsl # ''resumeSubHeadingListStart'' @ [nl],
     ''{{PROJECTS}}    '' @ bsl # ''resumeSubHeadingListEnd'' @ [nl],
     bsl # ''vspace{-16pt}'' @ [nl],
     [nl]]"

text \<open>Lines of the template: the technical skills section.\<close>

definition template_skills :: "string list" where
  "template_skills =
    [''%-----------TECHNICAL SKILLS-----------'' @ [nl],
     bsl # ''section{Technical Skills}'' @ [nl],
     '' '' @ bsl # ''begin{itemize}[leftmargin=0.15in, label={}]'' @ [nl],
     ''    '' @ bsl # ''item{'' @ [nl],
     ''     {{TECHNICAL_SKILLS}}'' @ [nl],
     ''    }'' @ [nl],
     '' '' @ bsl # ''end{itemize}'' @ [nl],
     '' '' @ bsl # ''vspace{-16pt}'' @ [nl],
     [nl]]"

text \<open>Lines of the template: the positions of responsibility and the end of the document.\<close>

definition template_positions :: "string list" where
  "template_positions =
    [''%-----------INVOLVEMENT---------------'' @ [nl],
     bsl # ''section{Position of Responsibility}'' @ [nl],
     ''    '' @ bsl # ''resumeSubHeadingListStart'' @ [nl],
     ''{{POSITIONS}}    '' @ bsl # ''resumeSubHeadingListEnd'' @ [nl],
     [nl],
     bsl # ''end{document}'' @ [nl]]"

definition latex_template_lines :: "string list" where
  "latex_template_lines =
     template_preamble @ template_heading @ template_experience @ template_education @ template_projects @ template_skills @ template_positions"

definition get_latex_template :: string where
  "get_latex_template = concat latex_template_lines"

subsection \<open>\<^verbatim>\<open>generate_latex\<close>\<close>

text \<open>A run of \<^verbatim>\<open>text = text.replace(old, new)\<close> statements, from the first pair to the last.\<close>

definition substitute :: "(string \<times> string) list \<Rightarrow> string \<Rightarrow> string" where
  "substitute subs text = foldl (\<lambda>t (old, new). str_replace old new t) text subs"

text \<open>\<^verbatim>\<open>x or default\<close> for an optional string.\<close>

definition str_or :: "string option \<Rightarrow> string \<Rightarrow> string" where
  "str_or x dflt = (case x of None \<Rightarrow> dflt | Some s \<Rightarrow> if s \<noteq> [] then s else dflt)"

text \<open>
  The placeholders are replaced one after the other in the text as it then is, so a
  placeholder's name inside a value put in earlier is replaced too. Reading an attribute
  of \<^verbatim>\<open>state['resume_metadata']\<close> raises when the assembly has not run.
\<close>

definition generate_latex :: "AgentState \<Rightarrow> error + AgentState" where
  "generate_latex state =
     (case resume_metadata state of
        None \<Rightarrow> Inl AttributeError
      | Some metadata \<Rightarrow>
          let code0 = get_latex_template;
              code1 = str_replace ''{{NAME}}'' (escape_latex (PStr (md_name metadata))) code0;
              code2 = str_replace ''{{EMAIL}}'' (escape_latex (PStr (md_email metadata))) code1;
              code3 = str_replace ''{{PHONE}}''
                        (escape_latex (PStr (str_or (md_phone metadata) ''+91 1234567890''))) code2;
              code4 = str_replace ''{{LINKEDIN}}''
                        (escape_latex (PStr (str_or (md_linkedin metadata)
                           ''linkedin.com/in/yourprofile''))) code3
          in
          ebind (experience_latex metadata) (\<lambda>experience.
          let code5 = str_replace ''{{EXPERIENCE}}'' experience code4 in
          ebind (education_latex metadata) (\<lambda>education.
          let code6 = str_replace ''{{EDUCATION}}'' education code5 in
          ebind (projects_latex metadata) (\<lambda>projects.
          let code7 = str_replace ''{{PROJECTS}}'' projects code6 in
          ebind (technical_skills_latex metadata) (\<lambda>technical_skills.
          let code8 = str_replace ''{{TECHNICAL_SKILLS}}'' technical_skills code7 in
          ebind (por_latex metadata) (\<lambda>por.
          let code9 = str_replace ''{{POSITIONS}}'' por code8 in
          Inr (state\<lparr>latex_code := Some code9,
                     messages := [HumanMessage ''Generated LaTeX code'']\<rparr>)))))))"

section \<open>Shapes the properties speak of\<close>


fun is_list :: "pyval \<Rightarrow> bool" where
  "is_list (PList xs) = True"
| "is_list _ = False"

text \<open>
  An item of a coding-statistics list that the normalisation can take: anything that is
  not a dictionary (it is skipped), or a dictionary with a hashable platform and a
  description.
\<close>

fun coding_item_ok :: "pyval \<Rightarrow> bool" where
  "coding_item_ok (PDict item) =
     (case (map_of item (PStr ''platform''), map_of item (PStr ''description'')) of
        (Some k, Some v) \<Rightarrow> hashable k
      | _ \<Rightarrow> False)"
| "coding_item_ok _ = True"

text \<open>
  The mapping from platform to description that a list of platform and description
  records stands for: a later record of the same platform replaces the description.
\<close>

fun platform_mapping :: "pyval list \<Rightarrow> pydict \<Rightarrow> pydict" where
  "platform_mapping [] acc = acc"
| "platform_mapping (PDict item # items) acc =
     (case (map_of item (PStr ''platform''), map_of item (PStr ''description'')) of
        (Some k, Some v) \<Rightarrow> platform_mapping items (dict_set acc k v)
      | _ \<Rightarrow> platform_mapping items acc)"
| "platform_mapping (_ # items) acc = platform_mapping items acc"

text \<open>What \<^verbatim>\<open>escape_latex\<close> comes to on one character of a string.\<close>

definition escape_char :: "char \<Rightarrow> string" where
  "escape_char c =
     (if c = bsl then bsl # ''textbackslash'' @ bsl # ''{'' @ bsl # ''}''
      else if c = CHR ''%'' then bsl # ''%''
      else if c = CHR ''#'' then bsl # ''#''
      else if c = CHR ''_'' then bsl # ''_''
      else if c = CHR ''{'' then bsl # ''{''
      else if c = CHR ''}'' then bsl # ''}''
      else if c = CHR ''~'' then bsl # ''textasciitilde{}''
      else if c = CHR ''^'' then bsl # ''textasciicircum{}''
      else if c = CHR ''&'' then bsl # ''&''
      else [c])"

section \<open>Concrete inputs\<close>

text \<open>
  Networks. A response carries its body twice, as the bytes of \<^verbatim>\<open>response.content\<close> and
  as their decoding \<^verbatim>\<open>response.text\<close>. The two bodies used here are the bytes of
  \<^verbatim>\<open>%PDF-1.4\<close>, which start with the PDF header, and the bytes of an error page,
  \<^verbatim>\<open>Internal Server Error\<close>; each response below has the text of its bytes.
\<close>

definition pdf_body :: bytes where
  "pdf_body = [0x25, 0x50, 0x44, 0x46, 0x2D, 0x31, 0x2E, 0x34]"

definition pdf_text :: string where
  "pdf_text = ''%PDF-1.4''"

definition error_page :: bytes where
  "error_page =
     [0x49, 0x6E, 0x74, 0x65, 0x72, 0x6E, 0x61, 0x6C, 0x20, 0x53, 0x65, 0x72, 0x76, 0x65,
      0x72, 0x20, 0x45, 0x72, 0x72, 0x6F, 0x72]"

definition error_page_text :: string where
  "error_page_text = ''Internal Server Error''"

definition net_500_then_pdf :: network where
  "net_500_then_pdf =
     \<lparr>post = (\<lambda>c t. Response 500 error_page error_page_text),
      get = (\<lambda>c t. Response 200 pdf_body pdf_text)\<rparr>"

definition net_500_then_202 :: network where
  "net_500_then_202 =
     \<lparr>post = (\<lambda>c t. Response 500 error_page error_page_text),
      get = (\<lambda>c t. Response 202 pdf_body pdf_text)\<rparr>"

definition net_all_fail :: network where
  "net_all_fail =
     \<lparr>post = (\<lambda>c t. Response 500 error_page error_page_text),
      get = (\<lambda>c t. Timeout ''read timed out'')\<rparr>"

definition net_pdf_first :: network where
  "net_pdf_first =
     \<lparr>post = (\<lambda>c t. Response 201 pdf_body pdf_text),
      get = (\<lambda>c t. Response 500 error_page error_page_text)\<rparr>"

text \<open>A reply of the extraction service, and the state a request starts with.\<close>

definition sample_extracted :: ExtractedResumeInfo where
  "sample_extracted =
     \<lparr>ex_name = ''Jane Doe'',
      ex_email = ''jane@example.com'',
      ex_phone = None,
      ex_github = None,
      ex_linkedin = Some ''linkedin.com/in/jane'',
      ex_experiences =
        [\<lparr>we_company = ''Acme'', we_role = ''Engineer'', we_duration = ''2022 - 2024'',
          we_achievements = [''Shipped the billing service'']\<rparr>],
      ex_education =
        [\<lparr>ed_institution = ''MIT'', ed_degree = ''BSc'', ed_duration = ''2018 - 2022''\<rparr>],
      ex_projects =
        [\<lparr>pr_name = ''Ledger'', pr_technologies = [''Python''], pr_date = ''June 2023'',
          pr_achievements = [''Handled 1000 users'', ''Cut costs by 20 percent'']\<rparr>],
      ex_technical_skills = [(PStr ''Languages'', PList [PStr ''Python''])],
      ex_soft_skills = [''Teamwork''],
      ex_positions_of_responsibility = [],
      ex_certifications = [],
      ex_coding_stats =
        Some [\<lparr>cs_platform = ''LeetCode'', cs_description = ''500 problems''\<rparr>]\<rparr>"

definition initial_state :: AgentState where
  "initial_state =
     \<lparr>resume_text = ''Jane Doe, Engineer at Acme'',
      job_description = ''Backend engineer'',
      extracted_info = PNone,
      generated_projects = PNone,
      generated_skills = PNone,
      resume_metadata = None,
      latex_code = None,
      messages = []\<rparr>"

definition state_extracted :: AgentState where
  "state_extracted =
     initial_state\<lparr>extracted_info := dump_ExtractedResumeInfo sample_extracted,
                   messages := [HumanMessage ''Extracted information from resume'']\<rparr>"

text \<open>
  A reply of the projects service that fits the schema \<^verbatim>\<open>GeneratedProjects\<close>: one
  project, with four technologies and one achievement.
\<close>

definition one_project_reply :: GeneratedProjects where
  "one_project_reply =
     \<lparr>gp_projects =
        [\<lparr>pr_name = ''Cache'', pr_technologies = [''C'', ''Rust'', ''Go'', ''Zig''],
          pr_date = ''May 2025'', pr_achievements = [''Cut latency by 40 percent'']\<rparr>]\<rparr>"

definition cache_project :: pyval where
  "cache_project =
     PDict [(PStr ''name'', PStr ''Cache''),
            (PStr ''technologies'', PList [PStr ''C'', PStr ''Rust'', PStr ''Go'', PStr ''Zig'']),
            (PStr ''date'', PStr ''May 2025''),
            (PStr ''achievements'', PList [PStr ''Cut latency by 40 percent''])]"


definition state_generated :: AgentState where
  "state_generated =
     state_extracted\<lparr>generated_projects := PList [cache_project],
                     messages := [HumanMessage ''Generated 1 relevant projects'']\<rparr>"

definition sample_skills :: TechnicalSkills where
  "sample_skills = \<lparr>ts_skills = [(PStr ''Tools'', PList [PStr ''Docker'', PStr ''Git''])]\<rparr>"

definition state_skills :: AgentState where
  "state_skills =
     state_generated\<lparr>generated_skills := PDict [(PStr ''Tools'', PList [PStr ''Docker'', PStr ''Git''])],
                     messages := [HumanMessage ''Generated relevant technical skills'']\<rparr>"

text \<open>The record the assembly makes of \<^term>\<open>state_skills\<close>.\<close>

definition sample_metadata :: ResumeMetadata where
  "sample_metadata =
     \<lparr>md_name = ''Jane Doe'',
      md_email = ''jane@example.com'',
      md_phone = None,
      md_github = None,
      md_linkedin = Some ''linkedin.com/in/jane'',
      md_experiences =
        [PDict [(PStr ''company'', PStr ''Acme''),
                (PStr ''role'', PStr ''Engineer''),
                (PStr ''duration'', PStr ''2022 - 2024''),
                (PStr ''achievements'', PList [PStr ''Shipped the billing service''])]],
      md_education =
        [PDict [(PStr ''institution'', PStr ''MIT''),
                (PStr ''degree'', PStr ''BSc''),
                (PStr ''duration'', PStr ''2018 - 2022'')]],
      md_projects = [cache_project],
      md_technical_skills = [(PStr ''Tools'', PList [PStr ''Docker'', PStr ''Git''])],
      md_soft_skills = [''Teamwork''],
      md_positions_of_responsibility = [],
      md_certifications = [],
      md_coding_stats = Some [(PStr ''LeetCode'', PStr ''500 problems'')]\<rparr>"

definition state_assembled :: AgentState where
  "state_assembled =
     state_skills\<lparr>resume_metadata := Some sample_metadata,
                  messages := [HumanMessage ''Created resume metadata'']\<rparr>"

text \<open>
  An extracted record whose coding statistics are a list with a dictionary that has no
  description.
\<close>

definition state_bad_coding :: AgentState where
  "state_bad_coding =
     initial_state\<lparr>extracted_info :=
       PDict [(PStr ''name'', PStr ''Jane Doe''),
              (PStr ''email'', PStr ''jane@example.com''),
              (PStr ''coding_stats'', PList [PDict [(PStr ''platform'', PStr ''LeetCode'')]])]\<rparr>"

text \<open>
  A resume record with no experiences, education, projects and positions, and the
  state that holds it.
\<close>

definition empty_metadata :: ResumeMetadata where
  "empty_metadata =
     \<lparr>md_name = ''Jane Doe'',
      md_email = ''jane@example.com'',
      md_phone = None,
      md_github = None,
      md_linkedin = None,
      md_experiences = [],
      md_education = [],
      md_projects = [],
      md_technical_skills = [],
      md_soft_skills = [],
      md_positions_of_responsibility = [],
      md_certifications = [],
      md_coding_stats = None\<rparr>"

definition empty_state :: AgentState where
  "empty_state = initial_state\<lparr>resume_metadata := Some empty_metadata\<rparr>"

text \<open>
  The state the rendering stage makes of \<^term>\<open>empty_state\<close>: the template after the nine
  replacements, with the default contact fields and the fragments of the empty sections.
\<close>

definition empty_rendered :: AgentState where
  "empty_rendered =
     empty_state\<lparr>latex_code := Some
        (substitute
           [(''{{NAME}}'', ''Jane Doe''),
            (''{{EMAIL}}'', ''jane@example.com''),
            (''{{PHONE}}'', ''+91 1234567890''),
            (''{{LINKEDIN}}'', ''linkedin.com/in/yourprofile''),
            (''{{EXPERIENCE}}'', experience_placeholder),
            (''{{EDUCATION}}'', education_placeholder),
            (''{{PROJECTS}}'', []),
            (''{{TECHNICAL_SKILLS}}'', skills_placeholder),
            (''{{POSITIONS}}'', positions_placeholder)]
           get_latex_template),
       messages := [HumanMessage ''Generated LaTeX code'']\<rparr>"









section \<open>Properties of the typesetting collaborator\<close>

lemma json_result_shape:
  "compile_with_ytotech_json net code t = (s, b, e) \<Longrightarrow>
     (s \<longrightarrow> e = [] \<and> b \<noteq> None) \<and> (\<not> s \<longrightarrow> b = None)"
  by (auto simp: compile_with_ytotech_json_def Let_def split: outcome.splits if_splits)

lemma get_result_shape:
  "compile_with_ytotech_get net code t = (s, b, e) \<Longrightarrow>
     (s \<longrightarrow> e = [] \<and> b \<noteq> None) \<and> (\<not> s \<longrightarrow> b = None)"
  by (auto simp: compile_with_ytotech_get_def Let_def split: outcome.splits if_splits)

lemma online_eval_500_then_pdf:
  "compile_latex_online net_500_then_pdf [] 45 = (True, Some pdf_body, [])"
  by (simp add: compile_latex_online_def compile_with_ytotech_json_def
      compile_with_ytotech_get_def net_500_then_pdf_def pdf_body_def pdf_magic_def
      error_page_text_def)

lemma online_eval_all_fail:
  "compile_latex_online net_all_fail [] 45 =
     (False, None,
      ''All compilation services failed: YtoTech JSON POST: HTTP 500: Internal Server Error; YtoTech GET: Error: read timed out'')"
  by (simp add: compile_latex_online_def compile_with_ytotech_json_def
      compile_with_ytotech_get_def net_all_fail_def error_page_text_def str_of_int_def
      digits_of_nat.simps)

text \<open>
  C10: the triple returned by \<^verbatim>\<open>compile_latex_online\<close> is consistent. When it reports
  success, the error string is empty and the bytes are present; when it reports failure,
  the bytes are \<^verbatim>\<open>None\<close> and the error string is not empty.
\<close>

theorem compile_latex_online_consistent:
  "compile_latex_online net code t = (success, pdf, err) \<Longrightarrow>
     (success \<longrightarrow> err = [] \<and> pdf \<noteq> None) \<and> (\<not> success \<longrightarrow> pdf = None \<and> err \<noteq> [])"
  by (cases "compile_with_ytotech_json net code t"; cases "compile_with_ytotech_get net code t")
     (auto simp: compile_latex_online_def dest: json_result_shape get_result_shape
           split: if_splits)

text \<open>
  The consistency at two runs: the POST answers 500 and the GET a PDF; the POST answers
  500 and the GET times out.
\<close>

theorem compile_latex_online_consistent_witness:
  "compile_latex_online net_500_then_pdf [] 45 = (True, Some pdf_body, [])
   \<and> Some pdf_body \<noteq> None
   \<and> compile_latex_online net_all_fail [] 45 = (False, None,
        ''All compilation services failed: YtoTech JSON POST: HTTP 500: Internal Server Error; YtoTech GET: Error: read timed out'')
   \<and> ''All compilation services failed: YtoTech JSON POST: HTTP 500: Internal Server Error; YtoTech GET: Error: read timed out'' \<noteq> []"
  using compile_latex_online_consistent [OF online_eval_500_then_pdf]
        compile_latex_online_consistent [OF online_eval_all_fail]
        online_eval_500_then_pdf online_eval_all_fail
  by simp

lemma retry_loop_same:
  "retry_loop_first nets code m t as err sl = retry_loop nets code m t as err sl"
  by (induction as arbitrary: err sl) (auto split: prod.splits)

text \<open>
  C9: the two definitions of \<^verbatim>\<open>compile_latex_with_retry\<close> behave alike. For every LaTeX
  source, retry count and timeout, and every sequence of answers of the network, both
  give the same result (the same triple, or the same exception when the retry count is
  not positive) after the same waits.
\<close>

theorem compile_latex_with_retry_same:
  "compile_latex_with_retry_first nets code max_retries t =
   compile_latex_with_retry nets code max_retries t"
  by (simp add: compile_latex_with_retry_first_def compile_latex_with_retry_def
      retry_loop_same)

text \<open>The texts of the two bodies are the decodings of their bytes.\<close>

lemma pdf_body_decode: "map (\<lambda>b. char_of (unat b)) pdf_body = pdf_text"
  by code_simp

lemma error_page_decode: "map (\<lambda>b. char_of (unat b)) error_page = error_page_text"
  by code_simp

lemma online_eval_500_then_202:
  "compile_latex_online net_500_then_202 [] 45 =
     (False, None,
      ''All compilation services failed: YtoTech JSON POST: HTTP 500: Internal Server Error; YtoTech GET: HTTP 202: %PDF-1.4'')"
  by (simp add: compile_latex_online_def compile_with_ytotech_json_def
      compile_with_ytotech_get_def net_500_then_202_def error_page_text_def pdf_text_def
      str_of_int_def digits_of_nat.simps)

text \<open>
  C3, as stated, fails: the services take only the status codes 200 and 201 for a
  success, not every 2xx code. Here the POST answers 500 with an error page and the GET
  answers 202 with the body \<^verbatim>\<open>%PDF-1.4\<close>, which begins with the PDF header; the text of
  each response is the decoding of its bytes. The chain reports failure and gives no
  bytes, and the entry of the GET service carries the status and the text of the body.
\<close>

theorem compile_latex_online_2xx_counterexample:
  "post net_500_then_202 [] 45 = Response 500 error_page error_page_text
   \<and> get net_500_then_202 [] 45 = Response 202 pdf_body pdf_text
   \<and> map (\<lambda>b. char_of (unat b)) error_page = error_page_text
   \<and> map (\<lambda>b. char_of (unat b)) pdf_body = pdf_text
   \<and> pdf_text = ''%PDF-1.4''
   \<and> take 4 pdf_body = pdf_magic
   \<and> fst (compile_with_ytotech_json net_500_then_202 [] 45) = False
   \<and> compile_latex_online net_500_then_202 [] 45 =
     (False, None,
      ''All compilation services failed: YtoTech JSON POST: HTTP 500: Internal Server Error; YtoTech GET: HTTP 202: %PDF-1.4'')"
  by (simp add: online_eval_500_then_202 pdf_body_decode error_page_decode)
     (simp add: net_500_then_202_def pdf_body_def pdf_text_def pdf_magic_def
        compile_with_ytotech_json_def)

text \<open>
  C3, amended: the chain tries the POST service, then the GET service, and stops at the
  first success. If the POST service fails (as it does on every status other than 200
  and 201) and the GET answers with status 200 or 201 and a body that begins with the
  PDF header, the result is success with the GET's body and an empty error string. If
  the POST answers so, the result is success with the POST's body. If both services
  fail, the result is failure, without bytes, and the error string is
  \<^verbatim>\<open>All compilation services failed: \<close> followed by the two entries
  \<^verbatim>\<open>YtoTech JSON POST: <error>\<close> and \<^verbatim>\<open>YtoTech GET: <error>\<close> joined by \<^verbatim>\<open>; \<close>.
\<close>

theorem compile_latex_online_fallback:
  "(\<not> fst (compile_with_ytotech_json net code t)
      \<and> get net code t = Response status body rtext
      \<and> (status = 200 \<or> status = 201) \<and> take 4 body = pdf_magic
     \<longrightarrow> compile_latex_online net code t = (True, Some body, []))
   \<and> (post net code t = Response status body rtext \<and> (status = 200 \<or> status = 201)
      \<and> take 4 body = pdf_magic
     \<longrightarrow> compile_latex_online net code t = (True, Some body, []))
   \<and> (post net code t = Response status body rtext \<and> status \<noteq> 200 \<and> status \<noteq> 201
     \<longrightarrow> \<not> fst (compile_with_ytotech_json net code t))
   \<and> (compile_with_ytotech_json net code t = (False, b_post, e_post)
      \<and> compile_with_ytotech_get net code t = (False, b_get, e_get)
     \<longrightarrow> compile_latex_online net code t =
           (False, None,
            ''All compilation services failed: YtoTech JSON POST: '' @ e_post
              @ ''; YtoTech GET: '' @ e_get))"
proof (intro conjI impI)
  assume a: "\<not> fst (compile_with_ytotech_json net code t)
      \<and> get net code t = Response status body rtext
      \<and> (status = 200 \<or> status = 201) \<and> take 4 body = pdf_magic"
  obtain s b e where j: "compile_with_ytotech_json net code t = (s, b, e)"
    by (cases "compile_with_ytotech_json net code t") auto
  with a have "\<not> s" by simp
  moreover from a have "compile_with_ytotech_get net code t = (True, Some body, [])"
    by (auto simp: compile_with_ytotech_get_def)
  ultimately show "compile_latex_online net code t = (True, Some body, [])"
    using j by (simp add: compile_latex_online_def)
next
  assume a: "post net code t = Response status body rtext \<and> (status = 200 \<or> status = 201)
      \<and> take 4 body = pdf_magic"
  then have "compile_with_ytotech_json net code t = (True, Some body, [])"
    by (auto simp: compile_with_ytotech_json_def)
  then show "compile_latex_online net code t = (True, Some body, [])"
    by (simp add: compile_latex_online_def)
next
  assume "post net code t = Response status body rtext \<and> status \<noteq> 200 \<and> status \<noteq> 201"
  then show "\<not> fst (compile_with_ytotech_json net code t)"
    by (simp add: compile_with_ytotech_json_def Let_def)
next
  assume "compile_with_ytotech_json net code t = (False, b_post, e_post)
      \<and> compile_with_ytotech_get net code t = (False, b_get, e_get)"
  then show "compile_latex_online net code t =
           (False, None,
            ''All compilation services failed: YtoTech JSON POST: '' @ e_post
              @ ''; YtoTech GET: '' @ e_get)"
    by (simp add: compile_latex_online_def)
qed

lemma json_eval_500:
  "compile_with_ytotech_json net_all_fail [] 45 = (False, None, ''HTTP 500: Internal Server Error'')"
  "compile_with_ytotech_json net_500_then_pdf [] 45 = (False, None, ''HTTP 500: Internal Server Error'')"
  by (simp_all add: compile_with_ytotech_json_def net_all_fail_def net_500_then_pdf_def
      error_page_text_def str_of_int_def digits_of_nat.simps)

lemma get_eval_timeout:
  "compile_with_ytotech_get net_all_fail [] 45 = (False, None, ''Error: read timed out'')"
  by (simp add: compile_with_ytotech_get_def net_all_fail_def)

text \<open>
  The amended statement at three networks: 500 then a PDF with status 200; a PDF with
  status 201 at once; 500 then a timeout.
\<close>

theorem compile_latex_online_fallback_witness:
  "(\<not> fst (compile_with_ytotech_json net_500_then_pdf [] 45)
      \<and> get net_500_then_pdf [] 45 = Response 200 pdf_body pdf_text
      \<and> take 4 pdf_body = pdf_magic
      \<and> compile_latex_online net_500_then_pdf [] 45 = (True, Some pdf_body, []))
   \<and> (post net_pdf_first [] 45 = Response 201 pdf_body pdf_text
      \<and> compile_latex_online net_pdf_first [] 45 = (True, Some pdf_body, []))
   \<and> (post net_all_fail [] 45 = Response 500 error_page error_page_text
      \<and> \<not> fst (compile_with_ytotech_json net_all_fail [] 45))
   \<and> (compile_with_ytotech_json net_all_fail [] 45
         = (False, None, ''HTTP 500: Internal Server Error'')
      \<and> compile_with_ytotech_get net_all_fail [] 45 = (False, None, ''Error: read timed out'')
      \<and> compile_latex_online net_all_fail [] 45 =
          (False, None,
           ''All compilation services failed: YtoTech JSON POST: HTTP 500: Internal Server Error; YtoTech GET: Error: read timed out''))"
  using compile_latex_online_fallback [where net = net_500_then_pdf and code = "[]"
          and t = 45 and status = 200 and body = pdf_body and rtext = pdf_text]
        compile_latex_online_fallback [where net = net_pdf_first and code = "[]"
          and t = 45 and status = 201 and body = pdf_body and rtext = pdf_text]
        compile_latex_online_fallback [where net = net_all_fail and code = "[]"
          and t = 45 and status = 500 and body = error_page and rtext = error_page_text
          and b_post = None and e_post = "''HTTP 500: Internal Server Error''"
          and b_get = None and e_get = "''Error: read timed out''"]
        json_eval_500 get_eval_timeout
  by (simp add: net_500_then_pdf_def net_pdf_first_def net_all_fail_def pdf_body_def
      pdf_magic_def)

section \<open>Properties of the stages of main.py\<close>

lemma ebind_Inr_iff: "(ebind m f = Inr y) = (\<exists>x. m = Inr x \<and> f x = Inr y)"
  by (cases m) (auto simp: ebind_def)

text \<open>What a successful run of the assembly stage says about its parts.\<close>

lemma create_metadata_InrD:
  assumes "create_metadata state = Inr state'"
  shows "\<exists>md raw xs rc.
     state' = state\<lparr>resume_metadata := Some md,
                     messages := [HumanMessage ''Created resume metadata'']\<rparr>
     \<and> raw_projects state (extracted_info state) = Inr raw
     \<and> py_iter raw = Inr xs
     \<and> emap format_project xs = Inr (md_projects md)
     \<and> py_get (extracted_info state) ''coding_stats'' PNone = Inr rc
     \<and> coding_stats_of rc = Inr (md_coding_stats md)"
  using assms
  unfolding create_metadata_def Let_def ebind_Inr_iff
  by (elim exE conjE) auto


lemma eval_generate_projects:
  "generate_projects state_extracted (Inr one_project_reply) = Inr state_generated"
  by (simp add: generate_projects_def ebind_def state_extracted_def state_generated_def
      dump_ExtractedResumeInfo_def one_project_reply_def dump_Project_def cache_project_def
      str_of_int_def digits_of_nat.simps)

lemma eval_generate_skills: "generate_skills state_generated (Inr sample_skills) = Inr state_skills"
  by (simp add: generate_skills_def ebind_def state_skills_def sample_skills_def)

lemma eval_create_metadata: "create_metadata state_skills = Inr state_assembled"
  by (simp add: create_metadata_def ebind_def Let_def state_skills_def state_generated_def
      state_extracted_def initial_state_def state_assembled_def sample_metadata_def
      dump_ExtractedResumeInfo_def sample_extracted_def dump_WorkExperience_def
      dump_Education_def dump_Project_def dump_CodingStats_def dump_opt_str_def
      format_experience_def format_por_def format_certification_def format_project_def
      raw_projects_def cache_project_def dict_index_def py_or_def)


subsection \<open>Precedence of the projects\<close>














subsection \<open>Normalisation of the coding statistics\<close>

lemma coding_comprehension_ok:
  "list_all coding_item_ok items \<Longrightarrow>
     coding_comprehension items acc = Inr (platform_mapping items acc)"
proof (induction items acc rule: coding_comprehension.induct)
  case (2 item items acc)
  then show ?case
    by (auto simp: dict_index_def ebind_def split: option.splits)
qed auto

text \<open>
  C5, as stated, fails: a shape can make the assembly stage fail. Here the extracted
  coding statistics are a list with one dictionary that has a platform and no
  description; reading the description raises KeyError and the stage returns nothing.
\<close>

theorem create_metadata_coding_stats_counterexample:
  "py_get (extracted_info state_bad_coding) ''coding_stats'' PNone
     = Inr (PList [PDict [(PStr ''platform'', PStr ''LeetCode'')]])
   \<and> create_metadata state_bad_coding = Inl KeyError"
  by (simp add: create_metadata_def ebind_def Let_def state_bad_coding_def initial_state_def
      format_experience_def format_por_def format_certification_def format_project_def
      raw_projects_def dict_index_def py_or_def)

text \<open>
  C5, amended: the normalisation of the coding statistics in the assembly stage. A list
  normalises to the mapping from platform to description of its dictionaries, items
  that are not dictionaries being skipped, provided every dictionary in it has a
  description and a hashable platform; so the list with the one record of platform
  LeetCode and description 500 problems normalises to the mapping of LeetCode to 500
  problems. A mapping passes through unchanged. A value that is neither a list nor a
  mapping normalises to \<^verbatim>\<open>None\<close>. On these shapes the normalisation does not fail, and
  whenever the stage returns, the assembled record holds the normalised value.
\<close>

theorem coding_stats_normalization:
  "(list_all coding_item_ok items \<longrightarrow>
      coding_stats_of (PList items) = Inr (Some (platform_mapping items [])))
   \<and> coding_stats_of (PList [PDict [(PStr ''platform'', PStr ''LeetCode''),
                                    (PStr ''description'', PStr ''500 problems'')]])
       = Inr (Some [(PStr ''LeetCode'', PStr ''500 problems'')])
   \<and> coding_stats_of (PDict kvs) = Inr (Some kvs)
   \<and> (\<not> is_list raw \<and> \<not> is_dict raw \<longrightarrow> coding_stats_of raw = Inr None)
   \<and> (create_metadata state = Inr state' \<longrightarrow>
        (\<exists>md rc. resume_metadata state' = Some md
           \<and> py_get (extracted_info state) ''coding_stats'' PNone = Inr rc
           \<and> coding_stats_of rc = Inr (md_coding_stats md)))"
proof (intro conjI impI)
  assume "list_all coding_item_ok items"
  then show "coding_stats_of (PList items) = Inr (Some (platform_mapping items []))"
    by (simp add: coding_comprehension_ok ebind_def)
next
  show "coding_stats_of (PList [PDict [(PStr ''platform'', PStr ''LeetCode''),
                                    (PStr ''description'', PStr ''500 problems'')]])
       = Inr (Some [(PStr ''LeetCode'', PStr ''500 problems'')])"
    by (simp add: dict_index_def ebind_def)
next
  show "coding_stats_of (PDict kvs) = Inr (Some kvs)" by simp
next
  assume "\<not> is_list raw \<and> \<not> is_dict raw"
  then show "coding_stats_of raw = Inr None" by (cases raw) auto
next
  assume "create_metadata state = Inr state'"
  from create_metadata_InrD [OF this]
  show "\<exists>md rc. resume_metadata state' = Some md
           \<and> py_get (extracted_info state) ''coding_stats'' PNone = Inr rc
           \<and> coding_stats_of rc = Inr (md_coding_stats md)"
    by auto
qed

text \<open>
  The amended statement at a list with a string and two records of one platform, at a
  string, and at the assembly of \<^term>\<open>state_skills\<close>.
\<close>

theorem coding_stats_normalization_witness:
  "list_all coding_item_ok
     [PStr ''note'',
      PDict [(PStr ''platform'', PStr ''LeetCode''), (PStr ''description'', PStr ''400 problems'')],
      PDict [(PStr ''platform'', PStr ''LeetCode''), (PStr ''description'', PStr ''500 problems'')]]
   \<and> coding_stats_of (PList
     [PStr ''note'',
      PDict [(PStr ''platform'', PStr ''LeetCode''), (PStr ''description'', PStr ''400 problems'')],
      PDict [(PStr ''platform'', PStr ''LeetCode''), (PStr ''description'', PStr ''500 problems'')]])
       = Inr (Some [(PStr ''LeetCode'', PStr ''500 problems'')])
   \<and> \<not> is_list (PStr ''500 problems'') \<and> \<not> is_dict (PStr ''500 problems'')
   \<and> coding_stats_of (PStr ''500 problems'') = Inr None
   \<and> create_metadata state_skills = Inr state_assembled
   \<and> resume_metadata state_assembled = Some sample_metadata
   \<and> md_coding_stats sample_metadata = Some [(PStr ''LeetCode'', PStr ''500 problems'')]"
  using coding_stats_normalization [where raw = "PStr ''500 problems''"
          and state = state_skills and state' = state_assembled and kvs = "[]"
          and items = "[PStr ''note'',
      PDict [(PStr ''platform'', PStr ''LeetCode''), (PStr ''description'', PStr ''400 problems'')],
      PDict [(PStr ''platform'', PStr ''LeetCode''), (PStr ''description'', PStr ''500 problems'')]]"]
        eval_create_metadata
  by (simp add: state_assembled_def sample_metadata_def)

subsection \<open>The projects generation stage\<close>

text \<open>
  C7, as stated, fails: the schema \<^verbatim>\<open>GeneratedProjects\<close> bounds neither the number of
  projects nor the lengths of their lists, and the stage checks nothing. Here the
  service answers with one project that has four technologies and one achievement; the
  stage stores that one entry.
\<close>

theorem generate_projects_count_counterexample:
  "generate_projects state_extracted (Inr one_project_reply) = Inr state_generated
   \<and> generated_projects state_generated =
       PList [PDict [(PStr ''name'', PStr ''Cache''),
                     (PStr ''technologies'',
                        PList [PStr ''C'', PStr ''Rust'', PStr ''Go'', PStr ''Zig'']),
                     (PStr ''date'', PStr ''May 2025''),
                     (PStr ''achievements'', PList [PStr ''Cut latency by 40 percent''])]]"
  by (simp add: eval_generate_projects) (simp add: state_generated_def cache_project_def)

text \<open>
  C7, amended: for every response the reasoning service returns under its schema, and
  every state whose extracted record is a dictionary, the projects generation stage
  returns, and it stores one entry per project of the response, in the order of the
  response, each entry with the technologies and the achievements of its project
  unchanged. The number of entries and the lengths of the lists are those of the
  response.
\<close>

theorem generate_projects_stores_response:
  assumes "extracted_info state = PDict kvs"
  shows "generate_projects state (Inr result) =
           Inr (state\<lparr>generated_projects := PList (map dump_Project (gp_projects result)),
                      messages := [HumanMessage (''Generated ''
                         @ str_of_int (int (length (gp_projects result)))
                         @ '' relevant projects'')]\<rparr>)
         \<and> length (map dump_Project (gp_projects result)) = length (gp_projects result)
         \<and> (\<forall>p \<in> set (gp_projects result).
               py_get (dump_Project p) ''technologies'' PNone
                 = Inr (PList (map PStr (pr_technologies p)))
             \<and> py_get (dump_Project p) ''achievements'' PNone
                 = Inr (PList (map PStr (pr_achievements p))))"
  using assms by (simp add: generate_projects_def ebind_def dump_Project_def)

text \<open>The amended statement at the state after the extraction and a response with one project.\<close>

theorem generate_projects_stores_response_witness:
  "extracted_info state_extracted = dump_ExtractedResumeInfo sample_extracted
   \<and> generate_projects state_extracted (Inr one_project_reply) =
       Inr (state_extracted\<lparr>generated_projects := PList (map dump_Project (gp_projects one_project_reply)),
              messages := [HumanMessage (''Generated ''
                 @ str_of_int (int (length (gp_projects one_project_reply)))
                 @ '' relevant projects'')]\<rparr>)
   \<and> length (map dump_Project (gp_projects one_project_reply)) = 1
   \<and> py_get (dump_Project (gp_projects one_project_reply ! 0)) ''technologies'' PNone
         = Inr (PList [PStr ''C'', PStr ''Rust'', PStr ''Go'', PStr ''Zig''])
   \<and> py_get (dump_Project (gp_projects one_project_reply ! 0)) ''achievements'' PNone
         = Inr (PList [PStr ''Cut latency by 40 percent''])"
  using generate_projects_stores_response [where state = state_extracted
          and result = one_project_reply
          and kvs = "case dump_ExtractedResumeInfo sample_extracted of PDict kvs \<Rightarrow> kvs"]
  by (simp add: state_extracted_def dump_ExtractedResumeInfo_def one_project_reply_def)

end
